theory Spec2Isabelle
  imports Main
begin

section \<open>The controller of the terminal messenger client\<close>

text \<open>
  A shallow embedding of \<^verbatim>\<open>tg/controllers/__init__.py\<close>: the class \<^verbatim>\<open>Controller\<close>
  with its update handlers, its key actions and its drawing paths. The controller is
  stateful: it mutates the model (chat list, selection, message store, pending-download
  registry) and talks to the terminal view, the messaging backend and the desktop. The
  embedding passes the state explicitly (the record \<open>world\<close>) and records every
  outward call as an \<open>effect\<close> appended to a log, in the order the code makes it.
\<close>

subsection \<open>Data\<close>

datatype error = IndexError | TypeError

text \<open>The state of an attached file as the backend reports it (\<^verbatim>\<open>update["file"]["local"]\<close>).\<close>

record local_file =
  is_downloading_completed :: bool
  lf_path :: string

text \<open>
  A message, with the values the controller reads through \<^verbatim>\<open>MsgProxy\<close>: the keys
  \<^verbatim>\<open>id\<close>, \<^verbatim>\<open>chat_id\<close>, \<^verbatim>\<open>sender_user_id\<close> and the properties \<^verbatim>\<open>is_text\<close>,
  \<^verbatim>\<open>text_content\<close>, \<^verbatim>\<open>content_type\<close>, \<^verbatim>\<open>file_id\<close> (an \<^verbatim>\<open>Optional[int]\<close>),
  \<^verbatim>\<open>size\<close> and \<^verbatim>\<open>local\<close>.
\<close>

record msg =
  m_id :: int
  m_chat_id :: int
  m_sender_user_id :: int
  m_is_text :: bool
  m_text_content :: string
  m_content_type :: string
  m_file_id :: "int option"
  m_size :: int
  m_local :: local_file

record content =
  ct_type :: string
  ct_text :: string

record notification_settings =
  mute_for :: int

record chat =
  c_id :: int
  c_title :: string
  c_order :: int
  c_is_pinned :: bool
  c_is_marked_as_unread :: bool
  c_unread_count :: int
  c_last_read_inbox_message_id :: int
  c_last_message :: "msg option"
  c_notification_settings :: notification_settings

record user =
  first_name :: string
  last_name :: string

text \<open>
  The message store \<^verbatim>\<open>model.msgs\<close>: the per-chat message lists (\<^verbatim>\<open>msgs.msgs\<close>, a
  dictionary) and the per-chat message cursor.
\<close>

record msg_model =
  msgs_of :: "int \<rightharpoonup> msg list"
  current_msgs :: "int \<Rightarrow> nat"

text \<open>Calls into the messaging backend \<^verbatim>\<open>self.tg\<close>.\<close>

datatype tg_call =
    Download_file int
  | Send_doc string "int option"
  | Send_photo string "int option"
  | Send_audio string "int option"
  | Send_video string "int option" int int int
  | Set_chat_nottification_settings int notification_settings

text \<open>
  Everything the controller does to the outside, in order: taking and releasing
  \<^verbatim>\<open>self.lock\<close>, the three draw calls of the view, the status-line prompt, backend
  calls, the desktop notification, log records of warnings and swallowed exceptions,
  \<^verbatim>\<open>model.edit_message\<close> and the external editor. A draw of the chat pane carries
  the selected row and a draw of the message pane the message cursor; the pages of
  chats and messages that the model hands to the view are left out.
\<close>

datatype effect =
    Acquire
  | Release
  | Draw_chats int
  | Draw_msgs nat
  | Draw_status "string option"
  | Get_input
  | Tg tg_call
  | Notify string string
  | Log_warning
  | Log_exception error
  | Edit_message string
  | Call_editor

text \<open>
  The state the controller works on: the chat list in display order
  (\<^verbatim>\<open>model.chats.chats\<close>), the selected index (\<^verbatim>\<open>model.current_chat\<close>), the message
  store, the pending-download registry (\<^verbatim>\<open>model.downloads\<close>, from file id to chat id
  and message id), the user directory, the id of the local user, the heights of the
  chat pane and of the message pane, and the log.
\<close>

record world =
  chats :: "chat list"
  current_chat :: nat
  msgs :: msg_model
  downloads :: "int \<rightharpoonup> int \<times> int"
  users :: "int \<Rightarrow> user"
  local_user_id :: int
  chats_h :: int
  msgs_h :: int
  effects :: "effect list"

text \<open>
  The operations of the chat store and the message store that the controller calls and
  that live in \<^verbatim>\<open>tg.models\<close>, and the constant \<^verbatim>\<open>config.max_download_size\<close>; none
  of them is defined in the controller, so the handlers take them as parameters. The
  keyword arguments of \<^verbatim>\<open>update_chat\<close> (the fields to merge) are a function on the
  chat record.
\<close>

record deps =
  update_chat :: "int \<Rightarrow> (chat \<Rightarrow> chat) \<Rightarrow> chat list \<Rightarrow> chat list"
  add_message :: "int \<Rightarrow> msg \<Rightarrow> msg_model \<Rightarrow> msg_model"
  remove_message :: "int \<Rightarrow> int \<Rightarrow> msg_model \<Rightarrow> msg_model"
  msgs_update_msg_content :: "int \<Rightarrow> int \<Rightarrow> content \<Rightarrow> msg_model \<Rightarrow> msg_model"
  max_download_size :: int

definition MSGS_LEFT_SCROLL_THRESHOLD :: int where
  "MSGS_LEFT_SCROLL_THRESHOLD = 2"

subsection \<open>Collaborators read by the controller\<close>

text \<open>
  Modelled from the spec: \<^verbatim>\<open>ChatModel.id_by_index\<close> of \<^verbatim>\<open>tg.models\<close>, which is not
  among the sources. It resolves a display index to the id of the chat at that index,
  and to \<^verbatim>\<open>None\<close> when no chat is there.
\<close>

definition id_by_index :: "chat list \<Rightarrow> nat \<Rightarrow> int option" where
  "id_by_index cs i = (if i < length cs then Some (c_id (cs ! i)) else None)"

text \<open>
  Modelled from the spec: \<^verbatim>\<open>Model.get_current_chat_msg_idx\<close> of \<^verbatim>\<open>tg.models\<close>: the
  message cursor of the selected chat, \<^verbatim>\<open>None\<close> when no chat is selected.
\<close>

definition get_current_chat_msg_idx :: "world \<Rightarrow> nat option" where
  "get_current_chat_msg_idx w =
     (case id_by_index (chats w) (current_chat w) of
        None \<Rightarrow> None
      | Some chat_id \<Rightarrow> Some (current_msgs (msgs w) chat_id))"

text \<open>
  Modelled from the spec: \<^verbatim>\<open>Model.is_me\<close> of \<^verbatim>\<open>tg.models\<close>: whether a user id is the
  local user's.
\<close>

definition is_me :: "world \<Rightarrow> int \<Rightarrow> bool" where
  "is_me w user_id = (user_id = local_user_id w)"

text \<open>
  Modelled from the spec: the properties \<^verbatim>\<open>sender_id\<close> and \<^verbatim>\<open>is_downloaded\<close> of
  \<^verbatim>\<open>MsgProxy\<close> (\<^verbatim>\<open>tg.msg\<close>): the sender of the message, and whether its file is fully
  local.
\<close>

definition sender_id :: "msg \<Rightarrow> int" where
  "sender_id m = m_sender_user_id m"

definition is_downloaded :: "msg \<Rightarrow> bool" where
  "is_downloaded m = is_downloading_completed (m_local m)"

text \<open>Python's truth value of an \<^verbatim>\<open>Optional[int]\<close>: \<^verbatim>\<open>None\<close> and \<^verbatim>\<open>0\<close> are false.\<close>

fun truthy :: "int option \<Rightarrow> bool" where
  "truthy None = False"
| "truthy (Some n) = (n \<noteq> 0)"

subsection \<open>Drawing paths\<close>

definition emit :: "effect \<Rightarrow> world \<Rightarrow> world" where
  "emit e w = w\<lparr>effects := effects w @ [e]\<rparr>"

text \<open>\<^verbatim>\<open>update_status\<close>: the status line is drawn with \<^verbatim>\<open>f"{level}: {msg}"\<close>, under the lock.\<close>

definition update_status :: "string \<Rightarrow> string \<Rightarrow> world \<Rightarrow> world" where
  "update_status level m w =
     emit Release (emit (Draw_status (Some (level @ '': '' @ m))) (emit Acquire w))"

definition present_error :: "string \<Rightarrow> world \<Rightarrow> world" where
  "present_error m w = update_status ''Error'' m w"

definition present_info :: "string \<Rightarrow> world \<Rightarrow> world" where
  "present_info m w = update_status ''Info'' m w"

text \<open>
  \<^verbatim>\<open>refresh_msgs\<close>: returns at once when there is no message cursor; otherwise it draws
  the message pane. It does not take the lock itself.
\<close>

definition refresh_msgs :: "world \<Rightarrow> world" where
  "refresh_msgs w =
     (case get_current_chat_msg_idx w of
        None \<Rightarrow> w
      | Some current_msg_idx \<Rightarrow> emit (Draw_msgs current_msg_idx) w)"

text \<open>\<^verbatim>\<open>render\<close>: the whole body runs inside \<^verbatim>\<open>with self.lock\<close>.\<close>

definition render :: "world \<Rightarrow> world" where
  "render w =
     (let w1 = emit Acquire w;
          page_size = chats_h w1;
          selected_chat = min (int (current_chat w1)) (page_size - MSGS_LEFT_SCROLL_THRESHOLD);
          w2 = emit (Draw_chats selected_chat) w1;
          w3 = refresh_msgs w2;
          w4 = emit (Draw_status None) w3
      in emit Release w4)"

subsection \<open>Downloads\<close>

definition download :: "int \<Rightarrow> int \<Rightarrow> int \<Rightarrow> world \<Rightarrow> world" where
  "download file_id chat_id msg_id w =
     emit (Tg (Download_file file_id))
       (w\<lparr>downloads := (downloads w)(file_id \<mapsto> (chat_id, msg_id))\<rparr>)"

text \<open>\<^verbatim>\<open>download_current_file\<close>, on the current message \<^verbatim>\<open>model.current_msg\<close>.\<close>

definition download_current_file :: "msg \<Rightarrow> world \<Rightarrow> world" where
  "download_current_file m w =
     (case m_file_id m of
        None \<Rightarrow> w
      | Some file_id \<Rightarrow>
          if truthy (Some file_id) then download file_id (m_chat_id m) (m_id m) w else w)"

subsection \<open>Key actions\<close>

text \<open>
  \<^verbatim>\<open>send_file\<close>. The answer to the status-line prompt and \<^verbatim>\<open>os.path.isfile\<close> come
  from outside; \<^verbatim>\<open>send_file_fun\<close> is one of the backend's \<^verbatim>\<open>send_doc\<close>,
  \<^verbatim>\<open>send_photo\<close>, \<^verbatim>\<open>send_audio\<close>. A prompt that returns \<^verbatim>\<open>None\<close> or the empty
  string is false in Python.
\<close>

definition send_file ::
  "(string \<Rightarrow> bool) \<Rightarrow> (string \<Rightarrow> int option \<Rightarrow> tg_call) \<Rightarrow> string option \<Rightarrow> world \<Rightarrow> world"
where
  "send_file isfile send_file_fun answer w =
     (let w1 = emit Get_input w in
      case answer of
        None \<Rightarrow> w1
      | Some file_path \<Rightarrow>
          if file_path \<noteq> [] \<and> isfile file_path
          then
            (let chat_id = id_by_index (chats w1) (current_chat w1);
                 w2 = emit (Tg (send_file_fun file_path chat_id)) w1
             in present_info ''File sent'' w2)
          else w1)"

text \<open>
  The branches \<^verbatim>\<open>sd\<close>, \<^verbatim>\<open>sp\<close> and \<^verbatim>\<open>sa\<close> of the loop of \<^verbatim>\<open>handle_msgs\<close> call
  \<^verbatim>\<open>send_file\<close> with the backend's call for a document, a photo and an audio file.
\<close>

definition handle_msgs_sd :: "(string \<Rightarrow> bool) \<Rightarrow> string option \<Rightarrow> world \<Rightarrow> world" where
  "handle_msgs_sd isfile answer w = send_file isfile Send_doc answer w"

definition handle_msgs_sp :: "(string \<Rightarrow> bool) \<Rightarrow> string option \<Rightarrow> world \<Rightarrow> world" where
  "handle_msgs_sp isfile answer w = send_file isfile Send_photo answer w"

definition handle_msgs_sa :: "(string \<Rightarrow> bool) \<Rightarrow> string option \<Rightarrow> world \<Rightarrow> world" where
  "handle_msgs_sa isfile answer w = send_file isfile Send_audio answer w"

text \<open>
  The branch \<^verbatim>\<open>sv\<close> has its own prompt and its own test of the path. The probes
  \<^verbatim>\<open>get_video_resolution\<close> and \<^verbatim>\<open>get_duration\<close> of \<^verbatim>\<open>tg.utils\<close> read the file and
  come from outside. The branch writes nothing to the status line, sent or not.
\<close>

definition handle_msgs_sv ::
  "(string \<Rightarrow> bool) \<Rightarrow> (string \<Rightarrow> int \<times> int) \<Rightarrow> (string \<Rightarrow> int) \<Rightarrow> string option \<Rightarrow>
   world \<Rightarrow> world"
where
  "handle_msgs_sv isfile get_video_resolution get_duration answer w =
     (let w1 = emit Get_input w in
      case answer of
        None \<Rightarrow> w1
      | Some file_path \<Rightarrow>
          if file_path \<noteq> [] \<and> isfile file_path
          then
            (let chat_id = id_by_index (chats w1) (current_chat w1);
                 (width, height) = get_video_resolution file_path;
                 duration = get_duration file_path
             in emit (Tg (Send_video file_path chat_id width height duration)) w1)
          else w1)"

text \<open>
  \<^verbatim>\<open>edit_msg\<close>, on the current message. \<open>edited\<close> is what \<^verbatim>\<open>f.read().strip()\<close>
  returns once the external editor has closed.
\<close>

definition edit_msg :: "msg \<Rightarrow> string \<Rightarrow> world \<Rightarrow> world" where
  "edit_msg m edited w =
     (if \<not> is_me w (sender_id m) then present_error ''You can edit only your messages!'' w
      else if \<not> m_is_text m then present_error ''You can edit text messages only!'' w
      else
        (let w1 = emit Call_editor w in
         if edited \<noteq> []
         then present_info ''Message edited'' (emit (Edit_message edited) w1)
         else w1))"

text \<open>The branch \<^verbatim>\<open>keys == "D"\<close> of the loop of \<^verbatim>\<open>handle_msgs\<close>.\<close>

definition handle_msgs_D :: "msg \<Rightarrow> world \<Rightarrow> world" where
  "handle_msgs_D m w = present_info ''File downloaded'' (download_current_file m w)"

text \<open>
  The branch \<^verbatim>\<open>keys == "m"\<close> of the loop of \<^verbatim>\<open>handle_chats\<close>. Indexing the chat list
  out of range raises. \<^verbatim>\<open>notification_settings\<close> is the dictionary held by the chat
  itself, so assigning \<^verbatim>\<open>mute_for\<close> changes the stored chat as well.
\<close>

definition handle_chats_m :: "world \<Rightarrow> error + world" where
  "handle_chats_m w =
     (if current_chat w < length (chats w)
      then
        (let chat = chats w ! current_chat w;
             chat_id = c_id chat;
             notification_settings = c_notification_settings chat;
             notification_settings' =
               (if mute_for notification_settings \<noteq> 0
                then notification_settings\<lparr>mute_for := 0\<rparr>
                else notification_settings\<lparr>mute_for := 2147483647\<rparr>);
             w1 = w\<lparr>chats := (chats w)
                    [current_chat w := chat\<lparr>c_notification_settings := notification_settings'\<rparr>]\<rparr>
         in Inr (emit (Tg (Set_chat_nottification_settings chat_id notification_settings')) w1))
      else Inl IndexError)"

subsection \<open>Update handlers\<close>

text \<open>
  The loop of \<^verbatim>\<open>_refresh_current_chat\<close>: the first index whose chat has the given id,
  counted as \<^verbatim>\<open>enumerate\<close> counts. The two methods whose names start with an
  underscore are \<open>refresh_current_chat\<close> and \<open>notify_for_message\<close> here.
\<close>

fun chat_index :: "int \<Rightarrow> nat \<Rightarrow> chat list \<Rightarrow> nat option" where
  "chat_index current_chat_id i [] = None"
| "chat_index current_chat_id i (c # cs) =
     (if c_id c = current_chat_id then Some i else chat_index current_chat_id (Suc i) cs)"

definition refresh_current_chat :: "int option \<Rightarrow> world \<Rightarrow> world" where
  "refresh_current_chat current_chat_id w =
     (case current_chat_id of
        None \<Rightarrow> w
      | Some cid \<Rightarrow>
          render (case chat_index cid 0 (chats w) of
                    None \<Rightarrow> w
                  | Some i \<Rightarrow> w\<lparr>current_chat := i\<rparr>))"

text \<open>
  The seven handlers that change a chat share one shape: resolve the selected chat's
  id, call \<^verbatim>\<open>update_chat\<close> with the fields of the event, call
  \<^verbatim>\<open>_refresh_current_chat\<close> with the id resolved before.
\<close>

definition chat_handler :: "deps \<Rightarrow> int \<Rightarrow> (chat \<Rightarrow> chat) \<Rightarrow> world \<Rightarrow> world" where
  "chat_handler d chat_id kwargs w =
     (let current_chat_id = id_by_index (chats w) (current_chat w);
          w1 = w\<lparr>chats := update_chat d chat_id kwargs (chats w)\<rparr>
      in refresh_current_chat current_chat_id w1)"

definition update_chat_order :: "deps \<Rightarrow> int \<Rightarrow> int \<Rightarrow> world \<Rightarrow> world" where
  "update_chat_order d chat_id order' w =
     chat_handler d chat_id (\<lambda>c. c\<lparr>c_order := order'\<rparr>) w"

definition update_chat_title :: "deps \<Rightarrow> int \<Rightarrow> string \<Rightarrow> world \<Rightarrow> world" where
  "update_chat_title d chat_id title w =
     chat_handler d chat_id (\<lambda>c. c\<lparr>c_title := title\<rparr>) w"

definition update_chat_marked_as_unread :: "deps \<Rightarrow> int \<Rightarrow> bool \<Rightarrow> world \<Rightarrow> world" where
  "update_chat_marked_as_unread d chat_id is_marked_as_unread w =
     chat_handler d chat_id (\<lambda>c. c\<lparr>c_is_marked_as_unread := is_marked_as_unread\<rparr>) w"

definition update_chat_is_pinned :: "deps \<Rightarrow> int \<Rightarrow> bool \<Rightarrow> int \<Rightarrow> world \<Rightarrow> world" where
  "update_chat_is_pinned d chat_id is_pinned order' w =
     chat_handler d chat_id (\<lambda>c. c\<lparr>c_is_pinned := is_pinned, c_order := order'\<rparr>) w"

definition update_chat_read_inbox :: "deps \<Rightarrow> int \<Rightarrow> int \<Rightarrow> int \<Rightarrow> world \<Rightarrow> world" where
  "update_chat_read_inbox d chat_id last_read_inbox_message_id unread_count w =
     chat_handler d chat_id
       (\<lambda>c. c\<lparr>c_last_read_inbox_message_id := last_read_inbox_message_id,
              c_unread_count := unread_count\<rparr>) w"

text \<open>The draft itself is ignored by the source; only the order is merged.\<close>

definition update_chat_draft_msg :: "deps \<Rightarrow> int \<Rightarrow> int \<Rightarrow> world \<Rightarrow> world" where
  "update_chat_draft_msg d chat_id order' w =
     chat_handler d chat_id (\<lambda>c. c\<lparr>c_order := order'\<rparr>) w"

definition update_chat_last_msg :: "deps \<Rightarrow> int \<Rightarrow> msg option \<Rightarrow> int \<Rightarrow> world \<Rightarrow> world" where
  "update_chat_last_msg d chat_id message order' w =
     chat_handler d chat_id (\<lambda>c. c\<lparr>c_last_message := message, c_order := order'\<rparr>) w"

text \<open>\<^verbatim>\<open>update_chat_notification_settings\<close> renders whatever the selection is.\<close>

definition update_chat_notification_settings ::
  "deps \<Rightarrow> int \<Rightarrow> notification_settings \<Rightarrow> world \<Rightarrow> world"
where
  "update_chat_notification_settings d chat_id notification_settings w =
     render (w\<lparr>chats := update_chat d chat_id
                 (\<lambda>c. c\<lparr>c_notification_settings := notification_settings\<rparr>) (chats w)\<rparr>)"

definition update_msg_content :: "deps \<Rightarrow> int \<Rightarrow> int \<Rightarrow> content \<Rightarrow> world \<Rightarrow> world" where
  "update_msg_content d chat_id message_id new_content w =
     (let w1 = w\<lparr>msgs := msgs_update_msg_content d chat_id message_id new_content (msgs w)\<rparr>;
          current_chat_id = id_by_index (chats w1) (current_chat w1)
      in if current_chat_id = Some chat_id then refresh_msgs w1 else w1)"

definition update_msg_send_succeeded :: "deps \<Rightarrow> msg \<Rightarrow> int \<Rightarrow> world \<Rightarrow> world" where
  "update_msg_send_succeeded d message old_message_id w =
     (let chat_id = m_chat_id message;
          msg_id = old_message_id;
          w1 = w\<lparr>msgs := add_message d chat_id message (msgs w)\<rparr>;
          w2 = w1\<lparr>msgs := remove_message d chat_id msg_id (msgs w1)\<rparr>;
          current_chat_id = id_by_index (chats w2) (current_chat w2)
      in if current_chat_id = Some chat_id then refresh_msgs w2 else w2)"

text \<open>
  The loop of \<^verbatim>\<open>_notify_for_message\<close>. \<^verbatim>\<open>chat\<close> starts as \<^verbatim>\<open>None\<close> and is the loop
  variable: when no chat has the id, it is left bound to the last chat of the list.
\<close>

fun scan_chats :: "int \<Rightarrow> chat option \<Rightarrow> chat list \<Rightarrow> chat option" where
  "scan_chats chat_id chat [] = chat"
| "scan_chats chat_id chat (c # cs) =
     (if chat_id = c_id c then Some c else scan_chats chat_id (Some c) cs)"

definition notify_for_message :: "int \<Rightarrow> msg \<Rightarrow> world \<Rightarrow> world" where
  "notify_for_message chat_id m w =
     (let chat = scan_chats chat_id None (chats w) in
      if (case chat of None \<Rightarrow> False
          | Some c \<Rightarrow> mute_for (c_notification_settings c) \<noteq> 0)
      then w
      else if is_me w (m_sender_user_id m) then w
      else
        (let user' = users w (sender_id m);
             name = first_name user' @ '' '' @ last_name user';
             text' = (if m_is_text m then m_text_content m else m_content_type m)
         in emit (Notify text' name) w))"

definition update_new_msg :: "deps \<Rightarrow> msg \<Rightarrow> world \<Rightarrow> world" where
  "update_new_msg d m w =
     (let w1 = w\<lparr>msgs := add_message d (m_chat_id m) m (msgs w)\<rparr>;
          current_chat_id = id_by_index (chats w1) (current_chat w1);
          w2 = (if current_chat_id = Some (m_chat_id m) then refresh_msgs w1 else w1);
          w3 = (case m_file_id m of
                  None \<Rightarrow> w2
                | Some file_id \<Rightarrow>
                    if truthy (Some file_id) \<and> m_size m \<le> max_download_size d
                    then download file_id (m_chat_id m) (m_id m) w2
                    else w2)
      in notify_for_message (m_chat_id m) m w3)"

text \<open>
  Modelled from the spec: the setter of the property \<^verbatim>\<open>local\<close> of \<^verbatim>\<open>MsgProxy\<close>
  (\<^verbatim>\<open>tg.msg\<close>), which is not among the sources. The local state belongs to the file
  attached to the message: the setter stores the new state there, and on a message
  that has no file (its \<^verbatim>\<open>file_id\<close> is \<^verbatim>\<open>None\<close>) the assignment raises.
\<close>

definition set_proxy_local :: "local_file \<Rightarrow> msg \<Rightarrow> error + msg" where
  "set_proxy_local local' m =
     (if m_file_id m = None then Inl TypeError else Inr (m\<lparr>m_local := local'\<rparr>))"

text \<open>
  The loop of \<^verbatim>\<open>update_file\<close> over the messages of the chat, up to the assignment
  \<^verbatim>\<open>proxy.local = local\<close>: the first message with the id gets the new \<^verbatim>\<open>local\<close> and
  the loop is left after it. The result is the exception that the assignment raised,
  or the list and that message, or the list and no message when none has the id.
\<close>

fun set_local :: "int \<Rightarrow> local_file \<Rightarrow> msg list \<Rightarrow> error + msg list \<times> msg option" where
  "set_local msg_id local' [] = Inr ([], None)"
| "set_local msg_id local' (m # ms) =
     (if m_id m = msg_id
      then (case set_proxy_local local' m of
              Inl e \<Rightarrow> Inl e
            | Inr proxy \<Rightarrow> Inr (proxy # ms, Some proxy))
      else (case set_local msg_id local' ms of
              Inl e \<Rightarrow> Inl e
            | Inr (ms', found) \<Rightarrow> Inr (m # ms', found)))"

text \<open>
  \<^verbatim>\<open>update_file\<close>. A file id that the registry does not hold is logged as a warning.
  The store keeps \<^verbatim>\<open>msgs.msgs\<close> as a \<^verbatim>\<open>defaultdict\<close> of lists: indexing it with a
  chat that has no entry gives the empty list and leaves that list in the dictionary,
  and the loop has nothing to run on. An exception raised in the loop ends the handler
  there: the decorator \<^verbatim>\<open>handle_exception\<close> (modelled from the spec: it logs the
  exception and swallows it) keeps it from the caller, and neither the draw nor the
  removal from the registry is reached.
\<close>

definition update_file :: "int \<Rightarrow> local_file \<Rightarrow> world \<Rightarrow> world" where
  "update_file file_id local' w =
     (case downloads w file_id of
        None \<Rightarrow> emit Log_warning w
      | Some (chat_id, msg_id) \<Rightarrow>
          (case msgs_of (msgs w) chat_id of
             None \<Rightarrow> w\<lparr>msgs := (msgs w)\<lparr>msgs_of := (msgs_of (msgs w))(chat_id \<mapsto> [])\<rparr>\<rparr>
           | Some ms \<Rightarrow>
               (case set_local msg_id local' ms of
                  Inl e \<Rightarrow> emit (Log_exception e) w
                | Inr (ms', None) \<Rightarrow> w
                | Inr (ms', Some proxy) \<Rightarrow>
                    (let w1 = w\<lparr>msgs := (msgs w)\<lparr>msgs_of := (msgs_of (msgs w))(chat_id \<mapsto> ms')\<rparr>\<rparr>;
                         w2 = refresh_msgs w1
                     in if is_downloaded proxy
                        then w2\<lparr>downloads := (downloads w2)(file_id := None)\<rparr>
                        else w2))))"

text \<open>The table \<^verbatim>\<open>self.handlers\<close>: one handler for each kind of update.\<close>

datatype update =
    UpdateChatDraftMessage int int
  | UpdateChatIsMarkedAsUnread int bool
  | UpdateChatIsPinned int bool int
  | UpdateChatLastMessage int "msg option" int
  | UpdateChatNotificationSettings int notification_settings
  | UpdateChatOrder int int
  | UpdateChatReadInbox int int int
  | UpdateChatTitle int string
  | UpdateFile int local_file
  | UpdateMessageContent int int content
  | UpdateMessageSendSucceeded msg int
  | UpdateNewMessage msg

fun handlers :: "deps \<Rightarrow> update \<Rightarrow> world \<Rightarrow> world" where
  "handlers d (UpdateChatDraftMessage chat_id order') = update_chat_draft_msg d chat_id order'"
| "handlers d (UpdateChatIsMarkedAsUnread chat_id b) = update_chat_marked_as_unread d chat_id b"
| "handlers d (UpdateChatIsPinned chat_id b order') = update_chat_is_pinned d chat_id b order'"
| "handlers d (UpdateChatLastMessage chat_id message order') =
     update_chat_last_msg d chat_id message order'"
| "handlers d (UpdateChatNotificationSettings chat_id ns) =
     update_chat_notification_settings d chat_id ns"
| "handlers d (UpdateChatOrder chat_id order') = update_chat_order d chat_id order'"
| "handlers d (UpdateChatReadInbox chat_id last_read unread_count) =
     update_chat_read_inbox d chat_id last_read unread_count"
| "handlers d (UpdateChatTitle chat_id title) = update_chat_title d chat_id title"
| "handlers d (UpdateFile file_id local') = update_file file_id local'"
| "handlers d (UpdateMessageContent chat_id message_id new_content) =
     update_msg_content d chat_id message_id new_content"
| "handlers d (UpdateMessageSendSucceeded message old_message_id) =
     update_msg_send_succeeded d message old_message_id"
| "handlers d (UpdateNewMessage m) = update_new_msg d m"

subsection \<open>Reading the log\<close>

fun tg_calls :: "effect list \<Rightarrow> tg_call list" where
  "tg_calls [] = []"
| "tg_calls (Tg c # es) = c # tg_calls es"
| "tg_calls (e # es) = tg_calls es"

fun notifications :: "effect list \<Rightarrow> (string \<times> string) list" where
  "notifications [] = []"
| "notifications (Notify text' title # es) = (text', title) # notifications es"
| "notifications (e # es) = notifications es"

fun status_msgs :: "effect list \<Rightarrow> string list" where
  "status_msgs [] = []"
| "status_msgs (Draw_status (Some s) # es) = s # status_msgs es"
| "status_msgs (e # es) = status_msgs es"

fun is_draw :: "effect \<Rightarrow> bool" where
  "is_draw (Draw_chats i) = True"
| "is_draw (Draw_msgs i) = True"
| "is_draw (Draw_status s) = True"
| "is_draw e = False"

subsection \<open>Two threads and one lock\<close>

text \<open>
  The key loop runs on the main thread, the update handlers on the thread of the
  backend's wrapper. A schedule says which thread makes the next call of its own log.
  \<^verbatim>\<open>threading.Lock\<close>: a thread that acquires the lock while the other one holds it
  waits, so such a schedule cannot run (\<open>None\<close>); otherwise the step gives the new
  owner of the lock, and whether the call was a draw made while the other thread held
  the lock, that is, while a drawing path of the other thread was in progress.
\<close>

datatype thread = Main_thread | Update_thread

fun lock_step :: "thread \<Rightarrow> effect \<Rightarrow> thread option \<Rightarrow> (thread option \<times> bool) option" where
  "lock_step t Acquire None = Some (Some t, False)"
| "lock_step t Acquire (Some t') = None"
| "lock_step t Release owner = Some (None, False)"
| "lock_step t e None = Some (None, False)"
| "lock_step t e (Some t') = Some (Some t', is_draw e \<and> t' \<noteq> t)"

fun run_schedule ::
  "thread list \<Rightarrow> effect list \<Rightarrow> effect list \<Rightarrow> thread option \<Rightarrow> bool option"
where
  "run_schedule [] [] [] owner = Some False"
| "run_schedule [] ms us owner = None"
| "run_schedule (Main_thread # ts) [] us owner = None"
| "run_schedule (Main_thread # ts) (e # ms) us owner =
     (case lock_step Main_thread e owner of
        None \<Rightarrow> None
      | Some (owner', v) \<Rightarrow>
          (case run_schedule ts ms us owner' of None \<Rightarrow> None | Some r \<Rightarrow> Some (v \<or> r)))"
| "run_schedule (Update_thread # ts) ms [] owner = None"
| "run_schedule (Update_thread # ts) ms (e # us) owner =
     (case lock_step Update_thread e owner of
        None \<Rightarrow> None
      | Some (owner', v) \<Rightarrow>
          (case run_schedule ts ms us owner' of None \<Rightarrow> None | Some r \<Rightarrow> Some (v \<or> r)))"

text \<open>
  A log keeps the lock discipline when it takes the lock only while it does not hold
  it, releases it only while it holds it, and draws only while it holds it. The first
  argument says whether the lock is held at the start.
\<close>

fun gated :: "bool \<Rightarrow> effect list \<Rightarrow> bool" where
  "gated held [] = True"
| "gated held (Acquire # es) = (\<not> held \<and> gated True es)"
| "gated held (Release # es) = (held \<and> gated False es)"
| "gated held (e # es) = ((if is_draw e then held else True) \<and> gated held es)"

subsection \<open>A store to run the handlers on\<close>

text \<open>
  Modelled from the spec: \<^verbatim>\<open>ChatModel.update_chat\<close> of \<^verbatim>\<open>tg.models\<close>, which is not
  among the sources. It merges the given fields into the chat with the id, leaving the
  other fields and the other chats as they are, and keeps the list in display order:
  pinned chats first, then by descending order.
\<close>

definition display_order :: "chat list \<Rightarrow> chat list" where
  "display_order cs =
     rev (sort_key c_order (filter c_is_pinned cs)) @
     rev (sort_key c_order (filter (\<lambda>c. \<not> c_is_pinned c) cs))"

definition merge_update_chat :: "int \<Rightarrow> (chat \<Rightarrow> chat) \<Rightarrow> chat list \<Rightarrow> chat list" where
  "merge_update_chat chat_id kwargs cs =
     display_order (map (\<lambda>c. if c_id c = chat_id then kwargs c else c) cs)"

text \<open>
  Modelled from the spec: \<^verbatim>\<open>add_message\<close>, \<^verbatim>\<open>remove_message\<close> and
  \<^verbatim>\<open>update_msg_content\<close> of the message store (\<^verbatim>\<open>tg.models\<close>): a message is put
  into the list of its chat, taken out of it by id, or has its content replaced in
  place.
\<close>

definition store_add_message :: "int \<Rightarrow> msg \<Rightarrow> msg_model \<Rightarrow> msg_model" where
  "store_add_message chat_id m mm =
     mm\<lparr>msgs_of := (msgs_of mm)
          (chat_id \<mapsto> m # (case msgs_of mm chat_id of None \<Rightarrow> [] | Some ms \<Rightarrow> ms))\<rparr>"

definition store_remove_message :: "int \<Rightarrow> int \<Rightarrow> msg_model \<Rightarrow> msg_model" where
  "store_remove_message chat_id msg_id mm =
     (case msgs_of mm chat_id of
        None \<Rightarrow> mm
      | Some ms \<Rightarrow> mm\<lparr>msgs_of := (msgs_of mm)(chat_id \<mapsto> filter (\<lambda>m. m_id m \<noteq> msg_id) ms)\<rparr>)"

definition store_update_msg_content :: "int \<Rightarrow> int \<Rightarrow> content \<Rightarrow> msg_model \<Rightarrow> msg_model" where
  "store_update_msg_content chat_id msg_id new_content mm =
     (case msgs_of mm chat_id of
        None \<Rightarrow> mm
      | Some ms \<Rightarrow>
          mm\<lparr>msgs_of := (msgs_of mm)
               (chat_id \<mapsto> map (\<lambda>m. if m_id m = msg_id
                                   then m\<lparr>m_content_type := ct_type new_content,
                                          m_text_content := ct_text new_content\<rparr>
                                   else m) ms)\<rparr>)"

definition example_deps :: deps where
  "example_deps =
     \<lparr>update_chat = merge_update_chat,
      add_message = store_add_message,
      remove_message = store_remove_message,
      msgs_update_msg_content = store_update_msg_content,
      max_download_size = 10485760\<rparr>"

definition example_chat :: "int \<Rightarrow> int \<Rightarrow> int \<Rightarrow> chat" where
  "example_chat chat_id order' mute =
     \<lparr>c_id = chat_id, c_title = ''chat'', c_order = order', c_is_pinned = False,
      c_is_marked_as_unread = False, c_unread_count = 0, c_last_read_inbox_message_id = 0,
      c_last_message = None, c_notification_settings = \<lparr>mute_for = mute\<rparr>\<rparr>"

text \<open>
  A text message and a photo of 2048 bytes with file id 7, both sent by user 5 to
  chat 1.
\<close>

definition example_text :: msg where
  "example_text =
     \<lparr>m_id = 100, m_chat_id = 1, m_sender_user_id = 5, m_is_text = True,
      m_text_content = ''hello'', m_content_type = ''text'', m_file_id = None, m_size = 0,
      m_local = \<lparr>is_downloading_completed = False, lf_path = []\<rparr>\<rparr>"

definition example_photo :: msg where
  "example_photo =
     \<lparr>m_id = 101, m_chat_id = 1, m_sender_user_id = 5, m_is_text = False,
      m_text_content = [], m_content_type = ''photo'', m_file_id = Some 7, m_size = 2048,
      m_local = \<lparr>is_downloading_completed = False, lf_path = []\<rparr>\<rparr>"

definition example_local :: local_file where
  "example_local = \<lparr>is_downloading_completed = True, lf_path = ''/tmp/photo.jpg''\<rparr>"

text \<open>
  Two chats in display order, chat 2 (order 10) above chat 1 (order 5); chat 1 is
  selected; the local user is 42; nothing is being downloaded and nothing is logged.
\<close>

definition example_world :: world where
  "example_world =
     \<lparr>chats = [example_chat 2 10 0, example_chat 1 5 0],
      current_chat = 1,
      msgs = \<lparr>msgs_of = [1 \<mapsto> [example_text]], current_msgs = (\<lambda>chat_id. 0)\<rparr>,
      downloads = Map.empty,
      users = (\<lambda>user_id. \<lparr>first_name = ''Ada'', last_name = ''Lovelace''\<rparr>),
      local_user_id = 42,
      chats_h = 20,
      msgs_h = 20,
      effects = []\<rparr>"

text \<open>
  A world in which the photo of the example is in the message list of chat 1 and its
  file, 7, is being downloaded for it.
\<close>

definition downloading_world :: world where
  "downloading_world =
     example_world
       \<lparr>msgs := \<lparr>msgs_of = [1 \<mapsto> [example_photo, example_text]], current_msgs = (\<lambda>chat_id. 0)\<rparr>,
        downloads := [7 \<mapsto> (1, 101)]\<rparr>"

subsection \<open>What an update of a chat comes to\<close>

text \<open>
  The behaviour that the seven handlers of chat updates are compared with, written on
  the state alone. The fields of the event are merged into the chat with the event's
  chat id. When the selected index resolved to no chat before the merge, that is all.
  When it resolved to a chat id, the selection becomes the first index of that id in
  the list after the merge (it stays where it is when the id is gone), and the whole
  screen is drawn under the lock: the chat pane, the message pane when the new
  selection resolves to a chat, and the status line. The id of the chat that was
  changed plays no part in whether the screen is drawn.
\<close>

definition merge_then_redraw :: "deps \<Rightarrow> int \<Rightarrow> (chat \<Rightarrow> chat) \<Rightarrow> world \<Rightarrow> world" where
  "merge_then_redraw d chat_id kwargs w =
     (let cs = update_chat d chat_id kwargs (chats w) in
      case id_by_index (chats w) (current_chat w) of
        None \<Rightarrow> w\<lparr>chats := cs\<rparr>
      | Some cid \<Rightarrow>
          (let i = (case chat_index cid 0 cs of None \<Rightarrow> current_chat w | Some j \<Rightarrow> j)
           in w\<lparr>chats := cs,
                current_chat := i,
                effects := effects w @
                  [Acquire, Draw_chats (min (int i) (chats_h w - 2))] @
                  (case id_by_index cs i of
                     None \<Rightarrow> []
                   | Some selected \<Rightarrow> [Draw_msgs (current_msgs (msgs w) selected)]) @
                  [Draw_status None, Release]\<rparr>))"

section \<open>Properties\<close>

subsection \<open>What each path does to the state and to the log\<close>

lemma emit_fields [simp]:
  "effects (emit e w) = effects w @ [e]"
  "chats (emit e w) = chats w"
  "current_chat (emit e w) = current_chat w"
  "msgs (emit e w) = msgs w"
  "downloads (emit e w) = downloads w"
  "users (emit e w) = users w"
  "local_user_id (emit e w) = local_user_id w"
  "chats_h (emit e w) = chats_h w"
  "msgs_h (emit e w) = msgs_h w"
  by (simp_all add: emit_def)

lemma get_current_chat_msg_idx_emit [simp]:
  "get_current_chat_msg_idx (emit e w) = get_current_chat_msg_idx w"
  by (simp add: get_current_chat_msg_idx_def split: option.splits)

lemma refresh_msgs_fields [simp]:
  "chats (refresh_msgs w) = chats w"
  "current_chat (refresh_msgs w) = current_chat w"
  "msgs (refresh_msgs w) = msgs w"
  "downloads (refresh_msgs w) = downloads w"
  "users (refresh_msgs w) = users w"
  "local_user_id (refresh_msgs w) = local_user_id w"
  "chats_h (refresh_msgs w) = chats_h w"
  by (simp_all add: refresh_msgs_def split: option.splits)

lemma effects_refresh_msgs:
  "effects (refresh_msgs w) =
     effects w @ (case get_current_chat_msg_idx w of None \<Rightarrow> [] | Some i \<Rightarrow> [Draw_msgs i])"
  by (simp add: refresh_msgs_def split: option.splits)

lemma effects_render:
  "effects (render w) =
     effects w @ [Acquire, Draw_chats (min (int (current_chat w)) (chats_h w - 2))] @
     (case get_current_chat_msg_idx w of None \<Rightarrow> [] | Some i \<Rightarrow> [Draw_msgs i]) @
     [Draw_status None, Release]"
  by (simp add: render_def effects_refresh_msgs MSGS_LEFT_SCROLL_THRESHOLD_def Let_def)

lemma render_fields [simp]:
  "chats (render w) = chats w"
  "current_chat (render w) = current_chat w"
  "msgs (render w) = msgs w"
  "downloads (render w) = downloads w"
  by (simp_all add: render_def Let_def)

lemma effects_update_status:
  "effects (update_status level m w) =
     effects w @ [Acquire, Draw_status (Some (level @ '': '' @ m)), Release]"
  by (simp add: update_status_def)

lemma update_status_eq:
  "update_status level m w =
     w\<lparr>effects := effects w @ [Acquire, Draw_status (Some (level @ '': '' @ m)), Release]\<rparr>"
  by (simp add: update_status_def emit_def)

lemma tg_calls_append [simp]: "tg_calls (es @ fs) = tg_calls es @ tg_calls fs"
  by (induction es rule: tg_calls.induct) simp_all

lemma notifications_append [simp]: "notifications (es @ fs) = notifications es @ notifications fs"
  by (induction es rule: notifications.induct) simp_all

lemma status_msgs_append [simp]: "status_msgs (es @ fs) = status_msgs es @ status_msgs fs"
  by (induction es rule: status_msgs.induct) simp_all

lemma chat_index_found:
  "cid \<in> c_id ` set cs \<Longrightarrow>
   \<exists>i. chat_index cid n cs = Some (n + i) \<and> i < length cs \<and> c_id (cs ! i) = cid"
proof (induction cs arbitrary: n)
  case Nil
  then show ?case by simp
next
  case (Cons c cs)
  show ?case
  proof (cases "c_id c = cid")
    case True
    then show ?thesis by simp
  next
    case False
    with Cons.prems have "cid \<in> c_id ` set cs" by auto
    from Cons.IH [OF this, of "Suc n"] obtain i where
      "chat_index cid (Suc n) cs = Some (Suc n + i)" "i < length cs" "c_id (cs ! i) = cid"
      by blast
    with False show ?thesis by (intro exI [of _ "Suc i"]) simp
  qed
qed

lemma chat_handler_chats:
  "chats (chat_handler d chat_id kwargs w) = update_chat d chat_id kwargs (chats w)"
  by (simp add: chat_handler_def refresh_current_chat_def Let_def split: option.splits)

lemma render_eq:
  "render w =
     w\<lparr>effects := effects w @
          [Acquire, Draw_chats (min (int (current_chat w)) (chats_h w - 2))] @
          (case get_current_chat_msg_idx w of None \<Rightarrow> [] | Some i \<Rightarrow> [Draw_msgs i]) @
          [Draw_status None, Release]\<rparr>"
  by (simp add: render_def refresh_msgs_def emit_def MSGS_LEFT_SCROLL_THRESHOLD_def Let_def
      get_current_chat_msg_idx_def split: option.splits)

lemma chat_handler_eq:
  "chat_handler d chat_id kwargs w = merge_then_redraw d chat_id kwargs w"
  by (simp add: chat_handler_def merge_then_redraw_def refresh_current_chat_def render_eq
      get_current_chat_msg_idx_def Let_def split: option.splits)

lemma notify_for_message_fields [simp]:
  "downloads (notify_for_message chat_id m w) = downloads w"
  "chats (notify_for_message chat_id m w) = chats w"
  "tg_calls (effects (notify_for_message chat_id m w)) = tg_calls (effects w)"
  by (simp_all add: notify_for_message_def Let_def)

lemma download_fields [simp]:
  "downloads (download file_id chat_id msg_id w) = (downloads w)(file_id \<mapsto> (chat_id, msg_id))"
  "chats (download file_id chat_id msg_id w) = chats w"
  "local_user_id (download file_id chat_id msg_id w) = local_user_id w"
  "users (download file_id chat_id msg_id w) = users w"
  "effects (download file_id chat_id msg_id w) = effects w @ [Tg (Download_file file_id)]"
  by (simp_all add: download_def)

lemma scan_chats_found:
  "find (\<lambda>c. c_id c = chat_id) cs = Some c \<Longrightarrow> scan_chats chat_id acc cs = Some c"
  by (induction cs arbitrary: acc) (auto split: if_splits)

lemma set_local_found:
  "find (\<lambda>m. m_id m = msg_id) ms = Some m0 \<Longrightarrow> m_file_id m0 \<noteq> None \<Longrightarrow>
   \<exists>ms'. set_local msg_id local' ms = Inr (ms', Some (m0\<lparr>m_local := local'\<rparr>))"
  by (induction ms) (auto simp: set_proxy_local_def split: if_splits)

text \<open>
  The store of the examples keeps every chat id, so a chat that is selected before
  \<^verbatim>\<open>update_chat\<close> is in the list after it, whatever fields are merged.
\<close>

lemma selected_chat_in_list:
  "id_by_index cs i = Some cid \<Longrightarrow> cid \<in> c_id ` set cs"
  by (auto simp: id_by_index_def split: if_splits)

lemma set_display_order: "set (display_order cs) = set cs"
  by (auto simp: display_order_def)

lemma merge_update_chat_keeps_ids:
  assumes "\<And>c. c_id (kwargs c) = c_id c"
  shows "c_id ` set (merge_update_chat chat_id kwargs cs) = c_id ` set cs"
proof -
  have "c_id ` set (map (\<lambda>c. if c_id c = chat_id then kwargs c else c) cs) = c_id ` set cs"
    using assms by (induction cs) auto
  then show ?thesis by (simp add: merge_update_chat_def set_display_order)
qed

subsection \<open>The lock around the drawing paths\<close>

text \<open>
  Two logs that both keep the discipline never overlap, whatever the schedule;
  \<^verbatim>\<open>render\<close> and \<^verbatim>\<open>update_status\<close> keep it. The message-pane refresh of
  \<^verbatim>\<open>update_msg_content\<close> does not: its one draw is made with the lock not taken.
\<close>

lemma lock_step_gated:
  assumes "gated (owner = Some t) (e # es)" and "t \<noteq> t'"
    and "lock_step t e owner = Some (owner', v)"
  shows "\<not> v \<and> gated (owner' = Some t) es \<and> (owner' = Some t') = (owner = Some t')"
  using assms by (cases e; cases owner) (auto split: if_splits)

lemma gated_schedule_never_overlaps:
  "gated (owner = Some Main_thread) ms \<Longrightarrow> gated (owner = Some Update_thread) us \<Longrightarrow>
   run_schedule ts ms us owner \<noteq> Some True"
proof (induction ts ms us owner rule: run_schedule.induct)
  case (4 ts e ms us owner)
  show ?case
  proof (cases "lock_step Main_thread e owner")
    case None
    then show ?thesis by simp
  next
    case (Some p)
    obtain owner' v where p: "p = (owner', v)" by (cases p)
    from lock_step_gated [OF "4.prems"(1) _ Some [unfolded p], of Update_thread]
    have g: "\<not> v" "gated (owner' = Some Main_thread) ms"
      "(owner' = Some Update_thread) = (owner = Some Update_thread)" by auto
    with "4.prems"(2) have "run_schedule ts ms us owner' \<noteq> Some True"
      using "4.IH" [OF Some [unfolded p] refl] by simp
    with Some p g show ?thesis by (auto split: option.splits)
  qed
next
  case (6 ts ms e us owner)
  show ?case
  proof (cases "lock_step Update_thread e owner")
    case None
    then show ?thesis by simp
  next
    case (Some p)
    obtain owner' v where p: "p = (owner', v)" by (cases p)
    from lock_step_gated [OF "6.prems"(2) _ Some [unfolded p], of Main_thread]
    have g: "\<not> v" "gated (owner' = Some Update_thread) us"
      "(owner' = Some Main_thread) = (owner = Some Main_thread)" by auto
    with "6.prems"(1) have "run_schedule ts ms us owner' \<noteq> Some True"
      using "6.IH" [OF Some [unfolded p] refl] by simp
    with Some p g show ?thesis by (auto split: option.splits)
  qed
qed simp_all

lemma gated_render: "gated False (drop (length (effects w)) (effects (render w)))"
  by (simp add: effects_render split: option.splits)

lemma gated_update_status: "gated False (drop (length (effects w)) (effects (update_status l m w)))"
  by (simp add: effects_update_status)

lemma update_msg_content_draws_unlocked:
  "id_by_index (chats w) (current_chat w) = Some chat_id \<Longrightarrow>
   \<exists>i. effects (update_msg_content d chat_id message_id new_content w) = effects w @ [Draw_msgs i] \<and>
     \<not> gated False [Draw_msgs i]"
  by (simp add: update_msg_content_def Let_def effects_refresh_msgs get_current_chat_msg_idx_def)

text \<open>
  C1. The claim: no draw call begins while another drawing path is in progress, since
  every path that draws holds the lock, the message-pane refresh of the update handlers
  included. In the source \<^verbatim>\<open>render\<close> and \<^verbatim>\<open>update_status\<close> take the lock, but
  \<^verbatim>\<open>update_msg_content\<close> calls \<^verbatim>\<open>refresh_msgs\<close> with the lock not taken. On the
  example, where chat 1 is selected: \<^verbatim>\<open>render\<close> on the main thread takes the lock and
  draws the chat list; an update of the content of a message of chat 1 then draws the
  message pane from the update thread, while the main thread still holds the lock and
  is between two of its own draw calls. The schedule runs (nothing waits) and ends with
  a draw made inside the other thread's drawing path.
\<close>

theorem refresh_msgs_draws_inside_render:
  "effects (render example_world) =
     [Acquire, Draw_chats 1, Draw_msgs 0, Draw_status None, Release] \<and>
   effects (update_msg_content example_deps 1 100 \<lparr>ct_type = ''text'', ct_text = ''hi''\<rparr>
      example_world) = [Draw_msgs 0] \<and>
   run_schedule
     [Main_thread, Main_thread, Update_thread, Main_thread, Main_thread, Main_thread]
     (effects (render example_world))
     (effects (update_msg_content example_deps 1 100 \<lparr>ct_type = ''text'', ct_text = ''hi''\<rparr>
        example_world))
     None = Some True"
proof -
  have r: "effects (render example_world) =
      [Acquire, Draw_chats 1, Draw_msgs 0, Draw_status None, Release]"
    by (simp add: effects_render example_world_def get_current_chat_msg_idx_def
        id_by_index_def example_chat_def)
  have u: "effects (update_msg_content example_deps 1 100
      \<lparr>ct_type = ''text'', ct_text = ''hi''\<rparr> example_world) = [Draw_msgs 0]"
    by (simp add: update_msg_content_def example_deps_def example_world_def
        store_update_msg_content_def effects_refresh_msgs get_current_chat_msg_idx_def
        id_by_index_def example_chat_def Let_def)
  show ?thesis by (simp add: r u)
qed

subsection \<open>The selection follows the chat\<close>

text \<open>
  C2. When some chat is selected, \<^verbatim>\<open>update_chat_order\<close> resolves its id on the chat
  list as it is before the mutation, applies \<^verbatim>\<open>update_chat\<close> with the new order, and
  sets the selection to the first index at which the chat list, as it is after the
  mutation, holds that id: the selected index resolves to the same chat id as before.
  \<^verbatim>\<open>update_chat\<close> is any function on the chat list that leaves a chat with the
  selected id in the list.
\<close>

theorem update_chat_order_follows_selection:
  assumes "id_by_index (chats w) (current_chat w) = Some cid"
    and "cid \<in> c_id ` set (update_chat d chat_id (\<lambda>c. c\<lparr>c_order := order'\<rparr>) (chats w))"
  shows "chats (update_chat_order d chat_id order' w) =
           update_chat d chat_id (\<lambda>c. c\<lparr>c_order := order'\<rparr>) (chats w) \<and>
         chat_index cid 0 (chats (update_chat_order d chat_id order' w)) =
           Some (current_chat (update_chat_order d chat_id order' w)) \<and>
         id_by_index (chats (update_chat_order d chat_id order' w))
           (current_chat (update_chat_order d chat_id order' w)) = Some cid"
proof -
  let ?cs = "update_chat d chat_id (\<lambda>c. c\<lparr>c_order := order'\<rparr>) (chats w)"
  from chat_index_found [OF assms(2), of 0] obtain i where
    i: "chat_index cid 0 ?cs = Some i" "i < length ?cs" "c_id (?cs ! i) = cid"
    by auto
  have cur: "current_chat (update_chat_order d chat_id order' w) = i"
    using assms(1) i(1)
    by (simp add: update_chat_order_def chat_handler_def refresh_current_chat_def Let_def)
  have cs: "chats (update_chat_order d chat_id order' w) = ?cs"
    by (simp add: update_chat_order_def chat_handler_chats)
  show ?thesis using i by (simp add: cur cs id_by_index_def)
qed

text \<open>
  On the example: chat 1 is selected at index 1; its order goes from 5 to 20, which
  moves it above chat 2, and the selection moves to index 0 with it.
\<close>

theorem update_chat_order_follows_selection_witness:
  "id_by_index (chats example_world) (current_chat example_world) = Some 1 \<and>
   current_chat example_world = 1 \<and>
   chats (update_chat_order example_deps 1 20 example_world) =
     [example_chat 1 20 0, example_chat 2 10 0] \<and>
   current_chat (update_chat_order example_deps 1 20 example_world) = 0 \<and>
   id_by_index (chats (update_chat_order example_deps 1 20 example_world))
     (current_chat (update_chat_order example_deps 1 20 example_world)) = Some 1"
proof -
  have a: "id_by_index (chats example_world) (current_chat example_world) = Some 1"
    by (simp add: id_by_index_def example_world_def example_chat_def)
  have cs: "update_chat example_deps 1 (\<lambda>c. c\<lparr>c_order := 20\<rparr>) (chats example_world) =
      [example_chat 1 20 0, example_chat 2 10 0]"
    by (simp add: example_deps_def merge_update_chat_def display_order_def example_world_def
        example_chat_def)
  have b: "1 \<in> c_id ` set (update_chat example_deps 1 (\<lambda>c. c\<lparr>c_order := 20\<rparr>) (chats example_world))"
    by (simp add: cs example_chat_def)
  note t = update_chat_order_follows_selection [OF a b]
  have t1: "chats (update_chat_order example_deps 1 20 example_world) =
      [example_chat 1 20 0, example_chat 2 10 0]"
    using t [THEN conjunct1] cs by simp
  have t2: "current_chat (update_chat_order example_deps 1 20 example_world) = 0"
    using t [THEN conjunct2, THEN conjunct1] by (simp add: t1 example_chat_def)
  have c: "current_chat example_world = 1"
    by (simp add: example_world_def)
  show ?thesis
    using t [THEN conjunct2, THEN conjunct2] a c t1 t2 by simp
qed

subsection \<open>Which updates redraw\<close>

text \<open>
  C8, as the source has it. Each of the seven handlers merges the fields of its own
  event into the chat with the event's chat id and then calls
  \<^verbatim>\<open>_refresh_current_chat\<close>, which never looks at the id of the chat that was
  changed. When no chat is selected the merge is all that happens and nothing is
  drawn. When some chat is selected, the handler sets the selection to the first
  index that holds the id selected before and draws the whole screen under the lock,
  whichever chat the update was for.
\<close>

theorem chat_update_renders_whenever_selected:
  "handlers d (UpdateChatOrder chat_id order') w =
     merge_then_redraw d chat_id (\<lambda>c. c\<lparr>c_order := order'\<rparr>) w \<and>
   handlers d (UpdateChatTitle chat_id title) w =
     merge_then_redraw d chat_id (\<lambda>c. c\<lparr>c_title := title\<rparr>) w \<and>
   handlers d (UpdateChatIsMarkedAsUnread chat_id is_marked_as_unread) w =
     merge_then_redraw d chat_id (\<lambda>c. c\<lparr>c_is_marked_as_unread := is_marked_as_unread\<rparr>) w \<and>
   handlers d (UpdateChatIsPinned chat_id is_pinned order') w =
     merge_then_redraw d chat_id (\<lambda>c. c\<lparr>c_is_pinned := is_pinned, c_order := order'\<rparr>) w \<and>
   handlers d (UpdateChatReadInbox chat_id last_read_inbox_message_id unread_count) w =
     merge_then_redraw d chat_id
       (\<lambda>c. c\<lparr>c_last_read_inbox_message_id := last_read_inbox_message_id,
              c_unread_count := unread_count\<rparr>) w \<and>
   handlers d (UpdateChatDraftMessage chat_id order') w =
     merge_then_redraw d chat_id (\<lambda>c. c\<lparr>c_order := order'\<rparr>) w \<and>
   handlers d (UpdateChatLastMessage chat_id message order') w =
     merge_then_redraw d chat_id (\<lambda>c. c\<lparr>c_last_message := message, c_order := order'\<rparr>) w"
  by (simp add: update_chat_order_def update_chat_title_def update_chat_marked_as_unread_def
      update_chat_is_pinned_def update_chat_read_inbox_def update_chat_draft_msg_def
      update_chat_last_msg_def chat_handler_eq)

text \<open>
  On the example chat 1 is selected at index 1. A new title for chat 2 changes chat 2
  alone, leaves the selection at index 1 and draws the screen. A new order 20 for
  chat 1 moves it to the top; the selection follows it to index 0 and the screen is
  drawn with row 0 selected.
\<close>

theorem chat_update_renders_whenever_selected_witness:
  "handlers example_deps (UpdateChatTitle 2 ''News'') example_world =
     example_world
       \<lparr>chats := [(example_chat 2 10 0)\<lparr>c_title := ''News''\<rparr>, example_chat 1 5 0],
        current_chat := 1,
        effects := [Acquire, Draw_chats 1, Draw_msgs 0, Draw_status None, Release]\<rparr> \<and>
   handlers example_deps (UpdateChatOrder 1 20) example_world =
     example_world
       \<lparr>chats := [example_chat 1 20 0, example_chat 2 10 0],
        current_chat := 0,
        effects := [Acquire, Draw_chats 0, Draw_msgs 0, Draw_status None, Release]\<rparr>"
proof -
  have t: "merge_then_redraw example_deps 2 (\<lambda>c. c\<lparr>c_title := ''News''\<rparr>) example_world =
      example_world
        \<lparr>chats := [(example_chat 2 10 0)\<lparr>c_title := ''News''\<rparr>, example_chat 1 5 0],
         current_chat := 1,
         effects := [Acquire, Draw_chats 1, Draw_msgs 0, Draw_status None, Release]\<rparr>"
    by (simp add: merge_then_redraw_def id_by_index_def example_deps_def merge_update_chat_def
        display_order_def example_world_def example_chat_def Let_def)
  have o: "merge_then_redraw example_deps 1 (\<lambda>c. c\<lparr>c_order := 20\<rparr>) example_world =
      example_world
        \<lparr>chats := [example_chat 1 20 0, example_chat 2 10 0],
         current_chat := 0,
         effects := [Acquire, Draw_chats 0, Draw_msgs 0, Draw_status None, Release]\<rparr>"
    by (simp add: merge_then_redraw_def id_by_index_def example_deps_def merge_update_chat_def
        display_order_def example_world_def example_chat_def Let_def)
  show ?thesis
    using chat_update_renders_whenever_selected
        [where d = example_deps and w = example_world and chat_id = 2 and title = "''News''"]
      chat_update_renders_whenever_selected
        [where d = example_deps and w = example_world and chat_id = 1 and order' = 20]
    by (simp only: t o)
qed

text \<open>
  C8 as claimed says that an update for a chat that is not the displayed one draws
  nothing. On the example chat 1 is selected and nothing has been drawn; a new title
  for chat 2 draws both panes and the status line.
\<close>

theorem chat_update_other_chat_redraws_counterexample:
  "id_by_index (chats example_world) (current_chat example_world) = Some 1 \<and>
   effects example_world = [] \<and>
   effects (handlers example_deps (UpdateChatTitle 2 ''News'') example_world) =
     [Acquire, Draw_chats 1, Draw_msgs 0, Draw_status None, Release]"
  by (simp add: update_chat_title_def chat_handler_def refresh_current_chat_def effects_render
      get_current_chat_msg_idx_def id_by_index_def example_deps_def merge_update_chat_def
      display_order_def example_world_def example_chat_def Let_def)

subsection \<open>Rejected edits\<close>

text \<open>
  C5, as the source has it. Editing a message whose sender is not the local user makes
  no edit call and changes nothing but the log, to which it adds one draw of the status
  line, under the lock. The text drawn is the message with its level in front,
  \<^verbatim>\<open>Error: You can edit only your messages!\<close>. A message of the local user that is
  not a text is rejected the same way, with \<^verbatim>\<open>Error: You can edit text messages only!\<close>.
\<close>

theorem edit_msg_rejected:
  "(\<not> is_me w (sender_id m) \<longrightarrow>
      edit_msg m edited w =
        w\<lparr>effects := effects w @
             [Acquire, Draw_status (Some ''Error: You can edit only your messages!''), Release]\<rparr>) \<and>
   (is_me w (sender_id m) \<and> \<not> m_is_text m \<longrightarrow>
      edit_msg m edited w =
        w\<lparr>effects := effects w @
             [Acquire, Draw_status (Some ''Error: You can edit text messages only!''), Release]\<rparr>)"
  by (simp add: edit_msg_def present_error_def update_status_eq)

theorem edit_msg_rejected_witness:
  "\<not> is_me example_world (sender_id example_text) \<and>
   edit_msg example_text ''bye'' example_world =
     example_world\<lparr>effects := effects example_world @
       [Acquire, Draw_status (Some ''Error: You can edit only your messages!''), Release]\<rparr> \<and>
   is_me (example_world\<lparr>local_user_id := 5\<rparr>) (sender_id example_photo) \<and>
   \<not> m_is_text example_photo \<and>
   edit_msg example_photo ''bye'' (example_world\<lparr>local_user_id := 5\<rparr>) =
     example_world\<lparr>local_user_id := 5,
       effects := effects (example_world\<lparr>local_user_id := 5\<rparr>) @
       [Acquire, Draw_status (Some ''Error: You can edit text messages only!''), Release]\<rparr>"
  using edit_msg_rejected [of example_world example_text "''bye''"]
    edit_msg_rejected [of "example_world\<lparr>local_user_id := 5\<rparr>" example_photo "''bye''"]
  by (simp add: is_me_def sender_id_def example_world_def example_text_def example_photo_def)

text \<open>
  C5 as claimed says that the status line shows exactly
  \<^verbatim>\<open>You can edit only your messages!\<close>. On the example, user 42 edits a message of
  user 5: the one text drawn on the status line is another string.
\<close>

theorem edit_msg_status_text_counterexample:
  "\<not> is_me example_world (sender_id example_text) \<and>
   status_msgs (effects (edit_msg example_text ''bye'' example_world)) =
     [''Error: You can edit only your messages!''] \<and>
   status_msgs (effects (edit_msg example_text ''bye'' example_world)) \<noteq>
     [''You can edit only your messages!'']"
  by (simp add: edit_msg_def present_error_def effects_update_status is_me_def sender_id_def
      example_world_def example_text_def)

subsection \<open>Sending a file that is not there\<close>

text \<open>
  C9, as the source has it. The keys that prompt for the path of a file to send are
  \<^verbatim>\<open>sd\<close>, \<^verbatim>\<open>sp\<close>, \<^verbatim>\<open>sa\<close> (through \<^verbatim>\<open>send_file\<close>) and \<^verbatim>\<open>sv\<close>. When the
  prompt returns nothing, the empty string, or a path that is not an existing file,
  each of them makes no backend call and changes no state; after the prompt itself
  nothing is written to the status line.
\<close>

theorem send_file_rejected_silently:
  assumes "(case answer of None \<Rightarrow> True | Some file_path \<Rightarrow> file_path = [] \<or> \<not> isfile file_path)"
  shows "send_file isfile send_file_fun answer w = w\<lparr>effects := effects w @ [Get_input]\<rparr> \<and>
     handle_msgs_sd isfile answer w = w\<lparr>effects := effects w @ [Get_input]\<rparr> \<and>
     handle_msgs_sp isfile answer w = w\<lparr>effects := effects w @ [Get_input]\<rparr> \<and>
     handle_msgs_sa isfile answer w = w\<lparr>effects := effects w @ [Get_input]\<rparr> \<and>
     handle_msgs_sv isfile get_video_resolution get_duration answer w =
       w\<lparr>effects := effects w @ [Get_input]\<rparr>"
  using assms
  by (auto simp: send_file_def handle_msgs_sd_def handle_msgs_sp_def handle_msgs_sa_def
      handle_msgs_sv_def emit_def Let_def split: option.splits)

theorem send_file_rejected_silently_witness:
  "send_file (\<lambda>p. False) Send_doc (Some ''/tmp/missing.pdf'') example_world =
     example_world\<lparr>effects := effects example_world @ [Get_input]\<rparr> \<and>
   handle_msgs_sv (\<lambda>p. False) (\<lambda>p. (640, 480)) (\<lambda>p. 12) (Some ''/tmp/missing.mp4'') example_world =
     example_world\<lparr>effects := effects example_world @ [Get_input]\<rparr> \<and>
   handle_msgs_sp (\<lambda>p. True) (Some []) example_world =
     example_world\<lparr>effects := effects example_world @ [Get_input]\<rparr> \<and>
   handle_msgs_sv (\<lambda>p. True) (\<lambda>p. (640, 480)) (\<lambda>p. 12) None example_world =
     example_world\<lparr>effects := effects example_world @ [Get_input]\<rparr>"
  using send_file_rejected_silently
      [where answer = "Some ''/tmp/missing.pdf''" and isfile = "\<lambda>p. False"
         and send_file_fun = Send_doc and w = example_world]
    send_file_rejected_silently
      [where answer = "Some ''/tmp/missing.mp4''" and isfile = "\<lambda>p. False"
         and get_video_resolution = "\<lambda>p. (640, 480)" and get_duration = "\<lambda>p. 12"
         and w = example_world]
    send_file_rejected_silently
      [where answer = "Some []" and isfile = "\<lambda>p. True" and w = example_world]
    send_file_rejected_silently
      [where answer = None and isfile = "\<lambda>p. True"
         and get_video_resolution = "\<lambda>p. (640, 480)" and get_duration = "\<lambda>p. 12"
         and w = example_world]
  by simp

text \<open>
  C9 as claimed says that the rejection is shown by a status-line message. For a path
  that names no file and for the empty path, no text is drawn on the status line,
  through \<^verbatim>\<open>send_file\<close> and through the branch \<^verbatim>\<open>sv\<close> alike.
\<close>

theorem send_file_no_status_counterexample:
  "status_msgs (effects (send_file (\<lambda>p. False) Send_doc (Some ''/tmp/missing.pdf'') example_world)) = [] \<and>
   status_msgs (effects (send_file (\<lambda>p. True) Send_doc (Some []) example_world)) = [] \<and>
   status_msgs (effects (handle_msgs_sv (\<lambda>p. False) (\<lambda>p. (640, 480)) (\<lambda>p. 12)
     (Some ''/tmp/missing.mp4'') example_world)) = []"
  by (simp add: send_file_def handle_msgs_sv_def example_world_def)

subsection \<open>The mute toggle\<close>

text \<open>
  C6. With a chat selected, the key \<^verbatim>\<open>m\<close> asks the backend for \<^verbatim>\<open>mute_for\<close> 2147483647
  when the chat's \<^verbatim>\<open>mute_for\<close> is 0 and for 0 when it is not. The toggle writes the
  requested value into the chat's own settings, so a second toggle asks for the other
  of the two values, and the toggle after these two asks again for what the first one
  asked.
\<close>

theorem mute_toggle_requests:
  assumes "current_chat w < length (chats w)"
  shows "\<exists>w1 w2 w3.
     handle_chats_m w = Inr w1 \<and>
     effects w1 = effects w @
       [Tg (Set_chat_nottification_settings (c_id (chats w ! current_chat w))
          ((c_notification_settings (chats w ! current_chat w))
             \<lparr>mute_for :=
                (if mute_for (c_notification_settings (chats w ! current_chat w)) = 0
                 then 2147483647 else 0)\<rparr>))] \<and>
     handle_chats_m w1 = Inr w2 \<and>
     effects w2 = effects w1 @
       [Tg (Set_chat_nottification_settings (c_id (chats w ! current_chat w))
          ((c_notification_settings (chats w ! current_chat w))
             \<lparr>mute_for :=
                (if mute_for (c_notification_settings (chats w ! current_chat w)) = 0
                 then 0 else 2147483647)\<rparr>))] \<and>
     handle_chats_m w2 = Inr w3 \<and>
     effects w3 = effects w2 @
       [Tg (Set_chat_nottification_settings (c_id (chats w ! current_chat w))
          ((c_notification_settings (chats w ! current_chat w))
             \<lparr>mute_for :=
                (if mute_for (c_notification_settings (chats w ! current_chat w)) = 0
                 then 2147483647 else 0)\<rparr>))]"
  using assms by (simp add: handle_chats_m_def Let_def emit_def)

theorem mute_toggle_requests_witness:
  "current_chat example_world < length (chats example_world) \<and>
   (\<exists>w1 w2 w3.
     handle_chats_m example_world = Inr w1 \<and>
     effects w1 = [Tg (Set_chat_nottification_settings 1 \<lparr>mute_for = 2147483647\<rparr>)] \<and>
     handle_chats_m w1 = Inr w2 \<and>
     effects w2 = effects w1 @ [Tg (Set_chat_nottification_settings 1 \<lparr>mute_for = 0\<rparr>)] \<and>
     handle_chats_m w2 = Inr w3 \<and>
     effects w3 = effects w2 @ [Tg (Set_chat_nottification_settings 1 \<lparr>mute_for = 2147483647\<rparr>)]) \<and>
   current_chat (example_world\<lparr>chats := [example_chat 1 5 3600], current_chat := 0\<rparr>) <
     length (chats (example_world\<lparr>chats := [example_chat 1 5 3600], current_chat := 0\<rparr>)) \<and>
   (\<exists>w1 w2 w3.
     handle_chats_m (example_world\<lparr>chats := [example_chat 1 5 3600], current_chat := 0\<rparr>) =
       Inr w1 \<and>
     effects w1 = [Tg (Set_chat_nottification_settings 1 \<lparr>mute_for = 0\<rparr>)] \<and>
     handle_chats_m w1 = Inr w2 \<and>
     effects w2 = effects w1 @ [Tg (Set_chat_nottification_settings 1 \<lparr>mute_for = 2147483647\<rparr>)] \<and>
     handle_chats_m w2 = Inr w3 \<and>
     effects w3 = effects w2 @ [Tg (Set_chat_nottification_settings 1 \<lparr>mute_for = 0\<rparr>)])"
  using mute_toggle_requests [of example_world]
    mute_toggle_requests [of "example_world\<lparr>chats := [example_chat 1 5 3600], current_chat := 0\<rparr>"]
  by (simp add: example_world_def example_chat_def)

subsection \<open>The download key\<close>

text \<open>
  C10. The key \<^verbatim>\<open>D\<close> in the message list always ends with the info message
  \<^verbatim>\<open>File downloaded\<close> drawn on the status line, after whatever
  \<^verbatim>\<open>download_current_file\<close> did. When the current message has no file (its
  \<^verbatim>\<open>file_id\<close> is false), that draw is all that happens: no download call is made and
  the registry is as it was.
\<close>

theorem handle_msgs_D_always_reports:
  "effects (handle_msgs_D m w) =
     effects (download_current_file m w) @
     [Acquire, Draw_status (Some ''Info: File downloaded''), Release] \<and>
   (\<not> truthy (m_file_id m) \<longrightarrow>
      handle_msgs_D m w =
        w\<lparr>effects := effects w @
             [Acquire, Draw_status (Some ''Info: File downloaded''), Release]\<rparr>)"
  by (auto simp: handle_msgs_D_def present_info_def update_status_eq download_current_file_def
      split: option.splits)

theorem handle_msgs_D_always_reports_witness:
  "\<not> truthy (m_file_id example_text) \<and>
   handle_msgs_D example_text example_world =
     example_world\<lparr>effects := effects example_world @
       [Acquire, Draw_status (Some ''Info: File downloaded''), Release]\<rparr>"
  using handle_msgs_D_always_reports [of example_text example_world]
  by (simp add: example_text_def)

subsection \<open>New messages: download and notification\<close>

text \<open>
  C3. A new message that carries a file (its \<^verbatim>\<open>file_id\<close> is true, as the handler
  tests it) of a size below \<^verbatim>\<open>max_download_size\<close> adds exactly one backend call to
  the log, \<^verbatim>\<open>download_file\<close> for that file id, and the registry afterwards is the
  registry before with that file id mapped to the chat id and the id of the message.
\<close>

theorem new_msg_downloads_small_file_once:
  assumes "m_file_id m = Some file_id" and "file_id \<noteq> 0" and "m_size m < max_download_size d"
  shows "tg_calls (effects (update_new_msg d m w)) =
           tg_calls (effects w) @ [Download_file file_id] \<and>
         downloads (update_new_msg d m w) =
           (downloads w)(file_id \<mapsto> (m_chat_id m, m_id m))"
  using assms by (simp add: update_new_msg_def Let_def effects_refresh_msgs split: option.splits)

theorem new_msg_downloads_small_file_once_witness:
  "m_file_id example_photo = Some 7 \<and> m_size example_photo < max_download_size example_deps \<and>
   tg_calls (effects (update_new_msg example_deps example_photo example_world)) =
     [Download_file 7] \<and>
   downloads (update_new_msg example_deps example_photo example_world) = [7 \<mapsto> (1, 101)]"
proof -
  have a: "m_file_id example_photo = Some 7" by (simp add: example_photo_def)
  have b: "(7::int) \<noteq> 0" by simp
  have c: "m_size example_photo < max_download_size example_deps"
    by (simp add: example_photo_def example_deps_def)
  have e: "effects example_world = []" "downloads example_world = Map.empty"
    by (simp_all add: example_world_def)
  have f: "m_chat_id example_photo = 1" "m_id example_photo = 101"
    by (simp_all add: example_photo_def)
  show ?thesis
    using new_msg_downloads_small_file_once [OF a b c, of example_world] a c
    by (simp add: e f)
qed

text \<open>
  C7, as the source has it. For a new message whose chat is in the chat list, a
  notification is raised exactly when that chat's \<^verbatim>\<open>mute_for\<close> is 0 and the sender is
  not the local user; its title is the sender's first and last name with a space
  between, its body the text of a text message and the content type of any other.
\<close>

theorem new_msg_notification:
  assumes "find (\<lambda>c. c_id c = m_chat_id m) (chats w) = Some c"
  shows "notifications (effects (update_new_msg d m w)) =
           notifications (effects w) @
           (if mute_for (c_notification_settings c) = 0 \<and> \<not> is_me w (sender_id m)
            then [(if m_is_text m then m_text_content m else m_content_type m,
                   first_name (users w (sender_id m)) @ '' '' @ last_name (users w (sender_id m)))]
            else [])"
proof -
  have n: "notifications (effects (notify_for_message (m_chat_id m) m w')) =
      notifications (effects w') @
      (if mute_for (c_notification_settings c) = 0 \<and> \<not> is_me w (sender_id m)
       then [(if m_is_text m then m_text_content m else m_content_type m,
              first_name (users w (sender_id m)) @ '' '' @ last_name (users w (sender_id m)))]
       else [])"
    if "chats w' = chats w" "local_user_id w' = local_user_id w" "users w' = users w" for w'
    using that scan_chats_found [OF assms, of None]
    by (simp add: notify_for_message_def is_me_def sender_id_def Let_def)
  show ?thesis
    by (simp add: update_new_msg_def Let_def n effects_refresh_msgs split: option.splits)
qed

theorem new_msg_notification_witness:
  "find (\<lambda>c. c_id c = m_chat_id example_text) (chats example_world) = Some (example_chat 1 5 0) \<and>
   notifications (effects (update_new_msg example_deps example_text example_world)) =
     [(''hello'', ''Ada Lovelace'')] \<and>
   find (\<lambda>c. c_id c = m_chat_id example_text)
     (chats (example_world\<lparr>chats := [example_chat 1 5 3600]\<rparr>)) = Some (example_chat 1 5 3600) \<and>
   notifications (effects (update_new_msg example_deps example_text
     (example_world\<lparr>chats := [example_chat 1 5 3600]\<rparr>))) = []"
proof -
  have a: "find (\<lambda>c. c_id c = m_chat_id example_text) (chats example_world) =
      Some (example_chat 1 5 0)"
    by (simp add: example_world_def example_chat_def example_text_def)
  have b: "find (\<lambda>c. c_id c = m_chat_id example_text)
      (chats (example_world\<lparr>chats := [example_chat 1 5 3600]\<rparr>)) = Some (example_chat 1 5 3600)"
    by (simp add: example_chat_def example_text_def)
  have e: "effects example_world = []" "local_user_id example_world = 42"
    "users example_world 5 = \<lparr>first_name = ''Ada'', last_name = ''Lovelace''\<rparr>"
    by (simp_all add: example_world_def)
  show ?thesis
    using new_msg_notification [OF a, of example_deps] new_msg_notification [OF b, of example_deps] a b
    by (simp add: e is_me_def sender_id_def example_text_def example_chat_def)
qed

text \<open>
  C7 as claimed lets a notification depend on the \<^verbatim>\<open>mute_for\<close> of the message's chat
  for every new message. When the chat list is empty the message's chat is not found
  there, and the message of another user is notified all the same.
\<close>

theorem new_msg_unknown_chat_notifies_counterexample:
  "chats (example_world\<lparr>chats := []\<rparr>) = [] \<and>
   notifications (effects (update_new_msg example_deps example_text
     (example_world\<lparr>chats := []\<rparr>))) = [(''hello'', ''Ada Lovelace'')]"
  by (simp add: update_new_msg_def notify_for_message_def is_me_def sender_id_def
      id_by_index_def example_deps_def example_world_def example_text_def Let_def)

subsection \<open>File updates and the registry\<close>

text \<open>
  C4, as the source has it. A file id that the registry does not hold leaves the state
  as it is, with one warning logged. A file id that the registry holds is taken out of
  it when the message it was registered for is in the message list of its chat, that
  message carries a file, and the new state of the file is fully local.
\<close>

theorem update_file_registry:
  "(downloads w file_id = None \<longrightarrow>
      update_file file_id local' w = w\<lparr>effects := effects w @ [Log_warning]\<rparr>) \<and>
   (downloads w file_id = Some (chat_id, msg_id) \<and> msgs_of (msgs w) chat_id = Some ms \<and>
    find (\<lambda>m. m_id m = msg_id) ms = Some m0 \<and> m_file_id m0 \<noteq> None \<and>
    is_downloading_completed local' \<longrightarrow>
      downloads (update_file file_id local' w) = (downloads w)(file_id := None))"
proof (intro conjI impI)
  assume "downloads w file_id = None"
  then show "update_file file_id local' w = w\<lparr>effects := effects w @ [Log_warning]\<rparr>"
    by (simp add: update_file_def emit_def)
next
  assume a: "downloads w file_id = Some (chat_id, msg_id) \<and> msgs_of (msgs w) chat_id = Some ms \<and>
    find (\<lambda>m. m_id m = msg_id) ms = Some m0 \<and> m_file_id m0 \<noteq> None \<and>
    is_downloading_completed local'"
  then obtain ms' where
    s: "set_local msg_id local' ms = Inr (ms', Some (m0\<lparr>m_local := local'\<rparr>))"
    using set_local_found [of msg_id ms m0 local'] by blast
  with a show "downloads (update_file file_id local' w) = (downloads w)(file_id := None)"
    by (simp add: update_file_def is_downloaded_def Let_def)
qed

text \<open>
  On the examples: file 7 is not tracked in the first world, and the update only logs a
  warning; in the second it is tracked for the photo, message 101 of chat 1, which is
  in the list and carries file 7, and the completed download empties the registry.
\<close>

theorem update_file_registry_witness:
  "downloads example_world 7 = None \<and>
   update_file 7 example_local example_world =
     example_world\<lparr>effects := effects example_world @ [Log_warning]\<rparr> \<and>
   downloads downloading_world 7 = Some (1, 101) \<and>
   msgs_of (msgs downloading_world) 1 = Some [example_photo, example_text] \<and>
   find (\<lambda>m. m_id m = 101) [example_photo, example_text] = Some example_photo \<and>
   m_file_id example_photo \<noteq> None \<and>
   is_downloading_completed example_local \<and>
   downloads (update_file 7 example_local downloading_world) = Map.empty"
proof -
  have a: "downloads example_world 7 = None"
    by (simp add: example_world_def)
  have b: "downloads downloading_world 7 = Some (1, 101)"
    "msgs_of (msgs downloading_world) 1 = Some [example_photo, example_text]"
    "find (\<lambda>m. m_id m = 101) [example_photo, example_text] = Some example_photo"
    "m_file_id example_photo \<noteq> None" "is_downloading_completed example_local"
    by (simp_all add: downloading_world_def example_photo_def example_local_def)
  have c: "(downloads downloading_world)(7 := None) = Map.empty"
    by (simp add: downloading_world_def)
  show ?thesis
    using update_file_registry [of example_world 7 example_local]
      update_file_registry [of downloading_world 7 example_local 1 101
        "[example_photo, example_text]" example_photo] a b c
    by simp
qed

text \<open>
  A message that carries no file cannot take the new state: with file 7 registered for
  the text message 100, the assignment raises, the exception is logged, nothing is
  drawn and the entry stays.
\<close>

lemma update_file_text_message:
  "update_file 7 example_local (example_world\<lparr>downloads := [7 \<mapsto> (1, 100)]\<rparr>) =
     example_world\<lparr>downloads := [7 \<mapsto> (1, 100)], effects := [Log_exception TypeError]\<rparr>"
  by (simp add: update_file_def set_proxy_local_def emit_def example_world_def example_text_def)

text \<open>
  C4 as claimed takes the entry out whenever the file id is tracked and the file is
  fully local. Here file 7 is registered for message 101 of chat 1, which is not in
  the message list of chat 1: the loop finds no message and the entry stays.
\<close>

theorem update_file_missing_msg_counterexample:
  "downloads (example_world\<lparr>downloads := [7 \<mapsto> (1, 101)]\<rparr>) 7 = Some (1, 101) \<and>
   is_downloading_completed example_local \<and>
   downloads (update_file 7 example_local (example_world\<lparr>downloads := [7 \<mapsto> (1, 101)]\<rparr>)) 7 =
     Some (1, 101)"
  by (simp add: update_file_def example_world_def example_text_def example_local_def)

end
